theory Spec2Isabelle
  imports Main
begin

section \<open>Effects: results, exceptions and observable state\<close>

text \<open>
  Every method of \<^verbatim>\<open>MongoDBWrapper\<close> is a thin layer over the MongoDB driver. The driver
  is an external collaborator, so it appears here as a parameter: a record of scripted
  answers, one per driver method, in the manner of a test double. A computation threads
  an observable state (\<open>'s\<close>) and either returns a value (\<open>Inr\<close>) or throws
  (\<open>Inl\<close>); an awaited promise that rejects is a throw at the \<^verbatim>\<open>await\<close>.
\<close>

type_synonym ('s, 'e, 'a) prog = "'s \<Rightarrow> ('e + 'a) \<times> 's"

definition io_return :: "'a \<Rightarrow> ('s, 'e, 'a) prog" where
  "io_return v = (\<lambda>s. (Inr v, s))"

definition io_throw :: "'e \<Rightarrow> ('s, 'e, 'a) prog" where
  "io_throw e = (\<lambda>s. (Inl e, s))"

definition io_bind :: "('s, 'e, 'a) prog \<Rightarrow> ('a \<Rightarrow> ('s, 'e, 'b) prog) \<Rightarrow> ('s, 'e, 'b) prog" where
  "io_bind m k = (\<lambda>s. case m s of (Inl e, s') \<Rightarrow> (Inl e, s') | (Inr v, s') \<Rightarrow> k v s')"

text \<open>\<^verbatim>\<open>try { body } catch (error) { handler }\<close>: the handler runs only when the body throws.\<close>

definition io_try_catch ::
  "('s, 'e, 'a) prog \<Rightarrow> ('e \<Rightarrow> ('s, 'e, 'a) prog) \<Rightarrow> ('s, 'e, 'a) prog" where
  "io_try_catch body handler =
     (\<lambda>s. case body s of (Inl e, s') \<Rightarrow> handler e s' | (Inr v, s') \<Rightarrow> (Inr v, s'))"

text \<open>
  \<^verbatim>\<open>try { body } finally { fin }\<close>: the finaliser runs after the body however the body
  ended; the body's outcome stands unless the finaliser itself throws.
\<close>

definition io_finally ::
  "('s, 'e, 'a) prog \<Rightarrow> ('s, 'e, unit) prog \<Rightarrow> ('s, 'e, 'a) prog" where
  "io_finally body fin =
     (\<lambda>s. case body s of
        (r, s') \<Rightarrow> (case fin s' of (Inl e, s'') \<Rightarrow> (Inl e, s'') | (Inr _, s'') \<Rightarrow> (r, s'')))"

section \<open>The client and its sessions\<close>

text \<open>
  The calls the wrapper makes on the client, on a session and on the console, in the
  order it makes them, are the observable state of the connection and transaction
  methods.
\<close>

datatype call =
    NewMongoClient string
  | ClientDb string
  | ClientConnect
  | ClientClose
  | ConsoleError string
  | StartSession
  | StartTransaction
  | CallFunc
  | CommitTransaction
  | AbortTransaction
  | EndSession

text \<open>A driver call is logged and answers what the double was scripted to answer.\<close>

definition io_call :: "call \<Rightarrow> ('e + 'a) \<Rightarrow> (call list, 'e, 'a) prog" where
  "io_call c answer = (\<lambda>log. (answer, log @ [c]))"

record DataStoreConfig =
  url :: string
  dbName :: string

text \<open>
  The scripted client. Each method is called at most once in one run of a wrapper
  method, so one answer per method covers every behaviour of a real driver, also one
  whose answer depends on the calls made before.
\<close>

record ('e, 'c, 'd, 'ss) client_driver =
  new_MongoClient :: "string \<Rightarrow> 'e + 'c"
  client_db :: "'c \<Rightarrow> string \<Rightarrow> 'e + 'd"
  client_connect :: "'c \<Rightarrow> 'e + unit"
  client_close :: "'c \<Rightarrow> 'e + unit"
  startSession :: "'c \<Rightarrow> 'e + 'ss"
  startTransaction :: "'ss \<Rightarrow> 'e + unit"
  commitTransaction :: "'ss \<Rightarrow> 'e + unit"
  abortTransaction :: "'ss \<Rightarrow> 'e + unit"

record ('c, 'd) MongoDBWrapper =
  config :: DataStoreConfig
  client :: 'c
  db :: 'd

definition constructor ::
  "('e, 'c, 'd, 'ss) client_driver \<Rightarrow> DataStoreConfig \<Rightarrow> (call list, 'e, ('c, 'd) MongoDBWrapper) prog" where
  "constructor drv cfg =
     io_bind (io_call (NewMongoClient (url cfg)) (new_MongoClient drv (url cfg))) (\<lambda>c.
     io_bind (io_call (ClientDb (dbName cfg)) (client_db drv c (dbName cfg))) (\<lambda>d.
     io_return \<lparr>config = cfg, client = c, db = d\<rparr>))"

definition connect ::
  "('e, 'c, 'd, 'ss) client_driver \<Rightarrow> ('c, 'd) MongoDBWrapper \<Rightarrow> (call list, 'e, unit) prog" where
  "connect drv this =
     io_try_catch
       (io_call ClientConnect (client_connect drv (client this)))
       (\<lambda>error.
          io_bind (io_call (ConsoleError ''Failed to connect to MongoDB'') (Inr ())) (\<lambda>_.
          io_throw error))"

definition disconnect ::
  "('e, 'c, 'd, 'ss) client_driver \<Rightarrow> ('c, 'd) MongoDBWrapper \<Rightarrow> (call list, 'e, unit) prog" where
  "disconnect drv this =
     io_try_catch
       (io_call ClientClose (client_close drv (client this)))
       (\<lambda>error.
          io_bind (io_call (ConsoleError ''Failed to disconnect from MongoDB'') (Inr ())) (\<lambda>_.
          io_throw error))"

text \<open>
  \<^verbatim>\<open>executeInTransaction\<close>. \<^verbatim>\<open>startSession\<close> is called before the \<^verbatim>\<open>try\<close>; the
  \<^verbatim>\<open>try\<close> block starts the transaction, awaits \<^verbatim>\<open>func(session)\<close>, awaits the commit
  and returns the result; the \<^verbatim>\<open>catch\<close> block awaits the abort and rethrows what it
  caught; the \<^verbatim>\<open>finally\<close> block calls \<^verbatim>\<open>endSession\<close>. The promise that
  \<^verbatim>\<open>endSession\<close> returns is not awaited, so its outcome cannot reach the control flow
  of this method: the call is logged and returns. The calls that \<open>func\<close> makes on its
  own are not the wrapper's and are not logged.
\<close>

definition executeInTransaction ::
  "('e, 'c, 'd, 'ss) client_driver \<Rightarrow> ('c, 'd) MongoDBWrapper \<Rightarrow> ('ss \<Rightarrow> 'e + 'a)
     \<Rightarrow> (call list, 'e, 'a) prog" where
  "executeInTransaction drv this func =
     io_bind (io_call StartSession (startSession drv (client this))) (\<lambda>session.
       io_finally
         (io_try_catch
            (io_bind (io_call StartTransaction (startTransaction drv session)) (\<lambda>_.
             io_bind (io_call CallFunc (func session)) (\<lambda>result.
             io_bind (io_call CommitTransaction (commitTransaction drv session)) (\<lambda>_.
             io_return result))))
            (\<lambda>error.
               io_bind (io_call AbortTransaction (abortTransaction drv session)) (\<lambda>_.
               io_throw error)))
         (io_call EndSession (Inr ())))"

section \<open>Documents and collections\<close>

text \<open>
  A document is a JavaScript object: a finite map from field names to values. The type
  \<open>'v\<close> stands for every JavaScript value, \<^verbatim>\<open>undefined\<close> included. A filter, an
  update and a projection are objects too; \<^verbatim>\<open>{}\<close> is the empty map.
\<close>

type_synonym 'v document = "string \<rightharpoonup> 'v"

text \<open>
  \<^verbatim>\<open>QueryOptions\<close>: every field is optional, \<open>None\<close> is an absent field. The fields
  \<^verbatim>\<open>filter\<close> and \<^verbatim>\<open>sort\<close>, and the method \<^verbatim>\<open>find\<close> below, carry a suffix here,
  the names being taken by list functions. \<open>'n\<close> is the type of JavaScript numbers.
\<close>

record ('v, 'n) QueryOptions =
  filter_q :: "'v document option"
  skip :: "'n option"
  limit :: "'n option"
  sort_q :: "'v option"
  projection :: "'v document option"

text \<open>The driver's \<^verbatim>\<open>FindOptions\<close>, as far as the wrapper fills it.\<close>

record ('v, 'n) FindOptions =
  skip_o :: "'n option"
  limit_o :: "'n option"
  sort_o :: "'v option"
  projection_o :: "'v document option"

text \<open>
  The results of the driver's inserts. \<^verbatim>\<open>insertedIds\<close> is an object keyed by the
  position in the input array; reading a position the driver did not fill yields
  \<^verbatim>\<open>undefined\<close>, a value of \<open>'v\<close>, so the lookup is a total function.
\<close>

record 'v InsertOneResult =
  insertedId :: 'v

record 'v InsertManyResult =
  insertedCount :: nat
  insertedIds :: "nat \<Rightarrow> 'v"

text \<open>
  The scripted collection methods of the driver. A collection handle is the database
  handle with the collection's name; \<open>'st\<close> is the state of the database, which only
  the driver reads and writes.
\<close>

record ('e, 'd, 'st, 'v, 'n) collection_driver =
  collection_insertOne ::
    "'d \<times> string \<Rightarrow> 'v document \<Rightarrow> ('st, 'e, 'v InsertOneResult) prog"
  collection_insertMany ::
    "'d \<times> string \<Rightarrow> 'v document list \<Rightarrow> ('st, 'e, 'v InsertManyResult) prog"
  collection_updateOne ::
    "'d \<times> string \<Rightarrow> 'v document \<Rightarrow> 'v document \<Rightarrow> ('st, 'e, unit) prog"
  collection_updateMany ::
    "'d \<times> string \<Rightarrow> 'v document \<Rightarrow> 'v document \<Rightarrow> ('st, 'e, unit) prog"
  collection_findOne ::
    "'d \<times> string \<Rightarrow> 'v document \<Rightarrow> ('v, 'n) FindOptions \<Rightarrow> ('st, 'e, 'v document option) prog"
  collection_find_toArray ::
    "'d \<times> string \<Rightarrow> 'v document \<Rightarrow> ('v, 'n) FindOptions \<Rightarrow> ('st, 'e, 'v document list) prog"
  collection_deleteOne ::
    "'d \<times> string \<Rightarrow> 'v document \<Rightarrow> ('st, 'e, unit) prog"
  collection_deleteMany ::
    "'d \<times> string \<Rightarrow> 'v document \<Rightarrow> ('st, 'e, unit) prog"
  collection_countDocuments ::
    "'d \<times> string \<Rightarrow> 'v document \<Rightarrow> ('st, 'e, 'n) prog"

definition getCollection :: "('c, 'd) MongoDBWrapper \<Rightarrow> string \<Rightarrow> 'd \<times> string" where
  "getCollection this name = (db this, name)"

text \<open>\<^verbatim>\<open>{ ...doc, _id: value }\<close>: the fields of \<open>doc\<close>, then \<^verbatim>\<open>_id\<close> set or overwritten.\<close>

definition spread_with_id :: "'v document \<Rightarrow> 'v \<Rightarrow> 'v document" where
  "spread_with_id doc v = doc(''_id'' \<mapsto> v)"

definition insertOne ::
  "('e, 'd, 'st, 'v, 'n) collection_driver \<Rightarrow> ('c, 'd) MongoDBWrapper \<Rightarrow> string \<Rightarrow> 'v document
     \<Rightarrow> ('st, 'e, 'v document) prog" where
  "insertOne drv this collectionName doc =
     (let collection = getCollection this collectionName in
      io_bind (collection_insertOne drv collection doc) (\<lambda>result.
      io_return (spread_with_id doc (insertedId result))))"


text \<open>\<^verbatim>\<open>docs.map((doc, index) => ...)\<close>: the callback sees each element with its position.\<close>

fun map_from :: "nat \<Rightarrow> ('a \<Rightarrow> nat \<Rightarrow> 'b) \<Rightarrow> 'a list \<Rightarrow> 'b list" where
  "map_from index f [] = []"
| "map_from index f (x # xs) = f x index # map_from (Suc index) f xs"

definition array_map :: "('a \<Rightarrow> nat \<Rightarrow> 'b) \<Rightarrow> 'a list \<Rightarrow> 'b list" where
  "array_map f xs = map_from 0 f xs"

definition insertMany ::
  "('e, 'd, 'st, 'v, 'n) collection_driver \<Rightarrow> ('c, 'd) MongoDBWrapper \<Rightarrow> string
     \<Rightarrow> 'v document list \<Rightarrow> ('st, 'e, 'v document list) prog" where
  "insertMany drv this collectionName docs =
     (let collection = getCollection this collectionName in
      io_bind (collection_insertMany drv collection docs) (\<lambda>result.
      io_return (array_map (\<lambda>doc index. spread_with_id doc (insertedIds result index)) docs)))"

text \<open>
  \<^verbatim>\<open>query.filter || {}\<close>: an absent filter is \<^verbatim>\<open>undefined\<close>, which is falsy, and gives
  the empty object; a filter that is present is an object, which is truthy, and is kept.
\<close>

definition filter_or_empty :: "('v, 'n) QueryOptions \<Rightarrow> 'v document" where
  "filter_or_empty query = (case filter_q query of None \<Rightarrow> Map.empty | Some f \<Rightarrow> f)"

definition updateOne ::
  "('e, 'd, 'st, 'v, 'n) collection_driver \<Rightarrow> ('c, 'd) MongoDBWrapper \<Rightarrow> string
     \<Rightarrow> ('v, 'n) QueryOptions \<Rightarrow> 'v document \<Rightarrow> ('st, 'e, unit) prog" where
  "updateOne drv this collectionName query update =
     (let collection = getCollection this collectionName in
      io_bind (collection_updateOne drv collection (filter_or_empty query) update) (\<lambda>_.
      io_return ()))"

definition updateMany ::
  "('e, 'd, 'st, 'v, 'n) collection_driver \<Rightarrow> ('c, 'd) MongoDBWrapper \<Rightarrow> string
     \<Rightarrow> ('v, 'n) QueryOptions \<Rightarrow> 'v document \<Rightarrow> ('st, 'e, unit) prog" where
  "updateMany drv this collectionName query update =
     (let collection = getCollection this collectionName in
      io_bind (collection_updateMany drv collection (filter_or_empty query) update) (\<lambda>_.
      io_return ()))"

definition findOne ::
  "('e, 'd, 'st, 'v, 'n) collection_driver \<Rightarrow> ('c, 'd) MongoDBWrapper \<Rightarrow> string
     \<Rightarrow> ('v, 'n) QueryOptions \<Rightarrow> ('st, 'e, 'v document option) prog" where
  "findOne drv this collectionName query =
     (let collection = getCollection this collectionName;
          options = \<lparr>skip_o = skip query, limit_o = None, sort_o = sort_q query,
                     projection_o = projection query\<rparr>
      in collection_findOne drv collection (filter_or_empty query) options)"

definition find_q ::
  "('e, 'd, 'st, 'v, 'n) collection_driver \<Rightarrow> ('c, 'd) MongoDBWrapper \<Rightarrow> string
     \<Rightarrow> ('v, 'n) QueryOptions \<Rightarrow> ('st, 'e, 'v document list) prog" where
  "find_q drv this collectionName query =
     (let collection = getCollection this collectionName;
          options = \<lparr>skip_o = skip query, limit_o = limit query, sort_o = sort_q query,
                     projection_o = projection query\<rparr>
      in collection_find_toArray drv collection (filter_or_empty query) options)"

definition deleteOne ::
  "('e, 'd, 'st, 'v, 'n) collection_driver \<Rightarrow> ('c, 'd) MongoDBWrapper \<Rightarrow> string
     \<Rightarrow> ('v, 'n) QueryOptions \<Rightarrow> ('st, 'e, unit) prog" where
  "deleteOne drv this collectionName query =
     (let collection = getCollection this collectionName in
      io_bind (collection_deleteOne drv collection (filter_or_empty query)) (\<lambda>_.
      io_return ()))"

definition deleteMany ::
  "('e, 'd, 'st, 'v, 'n) collection_driver \<Rightarrow> ('c, 'd) MongoDBWrapper \<Rightarrow> string
     \<Rightarrow> ('v, 'n) QueryOptions \<Rightarrow> ('st, 'e, unit) prog" where
  "deleteMany drv this collectionName query =
     (let collection = getCollection this collectionName in
      io_bind (collection_deleteMany drv collection (filter_or_empty query)) (\<lambda>_.
      io_return ()))"

definition count ::
  "('e, 'd, 'st, 'v, 'n) collection_driver \<Rightarrow> ('c, 'd) MongoDBWrapper \<Rightarrow> string
     \<Rightarrow> ('v, 'n) QueryOptions \<Rightarrow> ('st, 'e, 'n) prog" where
  "count drv this collectionName query =
     (let collection = getCollection this collectionName in
      collection_countDocuments drv collection (filter_or_empty query))"

section \<open>Query builder functions\<close>

text \<open>
  The builders take and return objects, and two of the properties below are about which
  object comes back, so options objects live in a store: a reference is a position in
  the store, \<^verbatim>\<open>{ ... }\<close> allocates at its end. A reference held by a caller always
  points into the store; for one that does not, the builders answer \<open>None\<close>.
\<close>

type_synonym ref = nat

type_synonym ('v, 'n) store = "('v, 'n) QueryOptions list"

definition alloc :: "('v, 'n) store \<Rightarrow> ('v, 'n) QueryOptions \<Rightarrow> ref \<times> ('v, 'n) store" where
  "alloc h obj = (length h, h @ [obj])"

definition deref :: "('v, 'n) store \<Rightarrow> ref \<Rightarrow> ('v, 'n) QueryOptions option" where
  "deref h r = (if r < length h then Some (h ! r) else None)"

definition empty_options :: "('v, 'n) QueryOptions" where
  "empty_options =
     \<lparr>filter_q = None, skip = None, limit = None, sort_q = None, projection = None\<rparr>"

text \<open>
  \<^verbatim>\<open>createQuery(options = {})\<close> returns its parameter: the default \<^verbatim>\<open>{}\<close> is
  allocated only when the argument is left out.
\<close>

definition createQuery :: "('v, 'n) store \<Rightarrow> ref option \<Rightarrow> ref \<times> ('v, 'n) store" where
  "createQuery h options =
     (case options of None \<Rightarrow> alloc h empty_options | Some r \<Rightarrow> (r, h))"

definition withFilter ::
  "('v, 'n) store \<Rightarrow> ref \<Rightarrow> 'v document \<Rightarrow> (ref \<times> ('v, 'n) store) option" where
  "withFilter h query f =
     (case deref h query of None \<Rightarrow> None
      | Some obj \<Rightarrow> Some (alloc h (obj\<lparr>filter_q := Some f\<rparr>)))"

definition withSkip ::
  "('v, 'n) store \<Rightarrow> ref \<Rightarrow> 'n \<Rightarrow> (ref \<times> ('v, 'n) store) option" where
  "withSkip h query n =
     (case deref h query of None \<Rightarrow> None
      | Some obj \<Rightarrow> Some (alloc h (obj\<lparr>skip := Some n\<rparr>)))"

definition withLimit ::
  "('v, 'n) store \<Rightarrow> ref \<Rightarrow> 'n \<Rightarrow> (ref \<times> ('v, 'n) store) option" where
  "withLimit h query n =
     (case deref h query of None \<Rightarrow> None
      | Some obj \<Rightarrow> Some (alloc h (obj\<lparr>limit := Some n\<rparr>)))"

definition withSort ::
  "('v, 'n) store \<Rightarrow> ref \<Rightarrow> 'v \<Rightarrow> (ref \<times> ('v, 'n) store) option" where
  "withSort h query s =
     (case deref h query of None \<Rightarrow> None
      | Some obj \<Rightarrow> Some (alloc h (obj\<lparr>sort_q := Some s\<rparr>)))"

definition withProjection ::
  "('v, 'n) store \<Rightarrow> ref \<Rightarrow> 'v document \<Rightarrow> (ref \<times> ('v, 'n) store) option" where
  "withProjection h query p =
     (case deref h query of None \<Rightarrow> None
      | Some obj \<Rightarrow> Some (alloc h (obj\<lparr>projection := Some p\<rparr>)))"

section \<open>Test doubles\<close>

text \<open>
  Concrete drivers for the examples: a client whose session methods answer as scripted,
  and a collection whose state is the number of documents it holds, all of them
  without a field \<^verbatim>\<open>active\<close>.
\<close>

definition scripted_client ::
  "(string + unit) \<Rightarrow> (string + unit) \<Rightarrow> (string + unit)
     \<Rightarrow> (string, unit, unit, unit) client_driver" where
  "scripted_client started committed aborted =
     \<lparr>new_MongoClient = (\<lambda>_. Inr ()), client_db = (\<lambda>_ _. Inr ()),
      client_connect = (\<lambda>_. Inr ()), client_close = (\<lambda>_. Inr ()),
      startSession = (\<lambda>_. Inr ()), startTransaction = (\<lambda>_. started),
      commitTransaction = (\<lambda>_. committed), abortTransaction = (\<lambda>_. aborted)\<rparr>"

definition local_wrapper :: "(unit, unit) MongoDBWrapper" where
  "local_wrapper =
     \<lparr>config = \<lparr>url = ''mongodb://localhost'', dbName = ''test''\<rparr>, client = (), db = ()\<rparr>"

definition counting_collection :: "int \<Rightarrow> (string, unit, nat, int, int) collection_driver" where
  "counting_collection first_id =
     \<lparr>collection_insertOne = (\<lambda>_ _ n. (Inr \<lparr>insertedId = first_id\<rparr>, Suc n)),
      collection_insertMany = (\<lambda>_ docs n.
        (Inr \<lparr>insertedCount = length docs, insertedIds = (\<lambda>i. first_id + int i)\<rparr>,
         n + length docs)),
      collection_updateOne = (\<lambda>_ _ _ n. (Inr (), n)),
      collection_updateMany = (\<lambda>_ _ _ n. (Inr (), n)),
      collection_findOne = (\<lambda>_ f _ n.
        (Inr (if f ''active'' = None \<and> 0 < n then Some Map.empty else None), n)),
      collection_find_toArray = (\<lambda>_ f _ n.
        (Inr (if f ''active'' = None then replicate n Map.empty else []), n)),
      collection_deleteOne = (\<lambda>_ f n. (Inr (), if f ''active'' = None then n - 1 else n)),
      collection_deleteMany = (\<lambda>_ f n. (Inr (), if f ''active'' = None then 0 else n)),
      collection_countDocuments = (\<lambda>_ f n. (Inr (if f ''active'' = None then int n else 0), n))\<rparr>"

definition sample_options :: "(int, int) QueryOptions" where
  "sample_options =
     \<lparr>filter_q = None, skip = Some 5, limit = Some 10, sort_q = None, projection = None\<rparr>"

section \<open>Running a transaction: the five ways through\<close>

lemmas io_defs =
  io_return_def io_throw_def io_bind_def io_try_catch_def io_finally_def io_call_def

lemma exec_session_failed:
  "startSession drv (client this) = Inl e \<Longrightarrow>
   executeInTransaction drv this func log = (Inl e, log @ [StartSession])"
  by (simp add: executeInTransaction_def io_defs)

lemma exec_start_failed:
  "startSession drv (client this) = Inr ss \<Longrightarrow> startTransaction drv ss = Inl e \<Longrightarrow>
   executeInTransaction drv this func log =
     ((case abortTransaction drv ss of Inl e' \<Rightarrow> Inl e' | Inr _ \<Rightarrow> Inl e),
      log @ [StartSession, StartTransaction, AbortTransaction, EndSession])"
  by (simp add: executeInTransaction_def io_defs split: sum.splits)

lemma exec_func_failed:
  "startSession drv (client this) = Inr ss \<Longrightarrow> startTransaction drv ss = Inr u \<Longrightarrow>
   func ss = Inl e \<Longrightarrow>
   executeInTransaction drv this func log =
     ((case abortTransaction drv ss of Inl e' \<Rightarrow> Inl e' | Inr _ \<Rightarrow> Inl e),
      log @ [StartSession, StartTransaction, CallFunc, AbortTransaction, EndSession])"
  by (simp add: executeInTransaction_def io_defs split: sum.splits)

lemma exec_commit_failed:
  "startSession drv (client this) = Inr ss \<Longrightarrow> startTransaction drv ss = Inr u \<Longrightarrow>
   func ss = Inr v \<Longrightarrow> commitTransaction drv ss = Inl e \<Longrightarrow>
   executeInTransaction drv this func log =
     ((case abortTransaction drv ss of Inl e' \<Rightarrow> Inl e' | Inr _ \<Rightarrow> Inl e),
      log @ [StartSession, StartTransaction, CallFunc, CommitTransaction, AbortTransaction,
             EndSession])"
  by (simp add: executeInTransaction_def io_defs split: sum.splits)

lemma exec_committed:
  "startSession drv (client this) = Inr ss \<Longrightarrow> startTransaction drv ss = Inr u \<Longrightarrow>
   func ss = Inr v \<Longrightarrow> commitTransaction drv ss = Inr u' \<Longrightarrow>
   executeInTransaction drv this func log =
     (Inr v, log @ [StartSession, StartTransaction, CallFunc, CommitTransaction, EndSession])"
  by (simp add: executeInTransaction_def io_defs split: sum.splits)

lemma scripted_session [simp]:
  "startSession (scripted_client started committed aborted) c = Inr ()"
  "startTransaction (scripted_client started committed aborted) ss = started"
  "commitTransaction (scripted_client started committed aborted) ss = committed"
  "abortTransaction (scripted_client started committed aborted) ss = aborted"
  by (simp_all add: scripted_client_def)

subsection \<open>What the caller gets back\<close>

text \<open>
  C1, as stated, fails where the driver's commit fails: \<open>func\<close> returns 42, the commit
  is rejected, and the \<^verbatim>\<open>catch\<close> block aborts and rethrows the commit's error. The
  caller gets that error, not 42.
\<close>

theorem commit_failure_discards_result:
  "executeInTransaction (scripted_client (Inr ()) (Inl ''commit failed'') (Inr ())) local_wrapper
     (\<lambda>session. Inr (42 :: int)) [] =
   (Inl ''commit failed'',
    [StartSession, StartTransaction, CallFunc, CommitTransaction, AbortTransaction, EndSession])"
  by (simp add: executeInTransaction_def io_defs scripted_client_def local_wrapper_def)

text \<open>
  C1, amended. Let the session and the transaction have started, so that \<open>func\<close> is
  called. If \<open>func\<close> throws, the wrapper calls \<^verbatim>\<open>abortTransaction\<close> and never calls
  \<^verbatim>\<open>commitTransaction\<close>, and the error of \<open>func\<close> reaches the caller provided the abort
  itself succeeds. If \<open>func\<close> succeeds, the wrapper calls \<^verbatim>\<open>commitTransaction\<close>, and
  provided the commit succeeds the value of \<open>func\<close> is returned unchanged and nothing
  is aborted.
\<close>

theorem transaction_outcome_follows_func:
  assumes "startSession drv (client this) = Inr ss"
    and "startTransaction drv ss = Inr ()"
  shows
    "(func ss = Inl e \<longrightarrow>
        AbortTransaction \<in> set (snd (executeInTransaction drv this func [])) \<and>
        CommitTransaction \<notin> set (snd (executeInTransaction drv this func [])) \<and>
        (abortTransaction drv ss = Inr () \<longrightarrow>
           fst (executeInTransaction drv this func []) = Inl e)) \<and>
     (func ss = Inr v \<longrightarrow>
        CommitTransaction \<in> set (snd (executeInTransaction drv this func [])) \<and>
        (commitTransaction drv ss = Inr () \<longrightarrow>
           fst (executeInTransaction drv this func []) = Inr v \<and>
           AbortTransaction \<notin> set (snd (executeInTransaction drv this func []))))"
proof (intro conjI impI)
  assume f: "func ss = Inl e"
  note run = exec_func_failed [where func = func and log = "[]", OF assms f]
  show "AbortTransaction \<in> set (snd (executeInTransaction drv this func []))"
    by (simp add: run)
  show "CommitTransaction \<notin> set (snd (executeInTransaction drv this func []))"
    by (simp add: run)
  show "fst (executeInTransaction drv this func []) = Inl e"
    if "abortTransaction drv ss = Inr ()"
    using that by (simp add: run)
next
  assume f: "func ss = Inr v"
  show "CommitTransaction \<in> set (snd (executeInTransaction drv this func []))"
  proof (cases "commitTransaction drv ss")
    case (Inl e')
    then show ?thesis
      by (simp add: exec_commit_failed [where func = func and log = "[]", OF assms f Inl])
  next
    case (Inr u)
    then show ?thesis
      by (simp add: exec_committed [where func = func and log = "[]", OF assms f Inr])
  qed
  assume c: "commitTransaction drv ss = Inr ()"
  note run = exec_committed [where func = func and log = "[]", OF assms f c]
  show "fst (executeInTransaction drv this func []) = Inr v"
    by (simp add: run)
  show "AbortTransaction \<notin> set (snd (executeInTransaction drv this func []))"
    by (simp add: run)
qed

text \<open>The amended C1 at a function that throws and at one that returns 42.\<close>

theorem transaction_outcome_follows_func_witness:
  "AbortTransaction \<in> set (snd (executeInTransaction (scripted_client (Inr ()) (Inr ()) (Inr ()))
      local_wrapper (\<lambda>session. (Inl ''boom'' :: string + int)) [])) \<and>
   CommitTransaction \<notin> set (snd (executeInTransaction (scripted_client (Inr ()) (Inr ()) (Inr ()))
      local_wrapper (\<lambda>session. (Inl ''boom'' :: string + int)) [])) \<and>
   fst (executeInTransaction (scripted_client (Inr ()) (Inr ()) (Inr ()))
      local_wrapper (\<lambda>session. (Inl ''boom'' :: string + int)) []) = Inl ''boom'' \<and>
   CommitTransaction \<in> set (snd (executeInTransaction (scripted_client (Inr ()) (Inr ()) (Inr ()))
      local_wrapper (\<lambda>session. (Inr 42 :: string + int)) [])) \<and>
   fst (executeInTransaction (scripted_client (Inr ()) (Inr ()) (Inr ()))
      local_wrapper (\<lambda>session. (Inr 42 :: string + int)) []) = Inr 42 \<and>
   AbortTransaction \<notin> set (snd (executeInTransaction (scripted_client (Inr ()) (Inr ()) (Inr ()))
      local_wrapper (\<lambda>session. (Inr 42 :: string + int)) []))"
proof -
  let ?drv = "scripted_client (Inr ()) (Inr ()) (Inr ())"
  have s: "startSession ?drv (client local_wrapper) = Inr ()" by simp
  have t: "startTransaction ?drv () = Inr ()" by simp
  have a: "abortTransaction ?drv () = Inr ()" by simp
  have c: "commitTransaction ?drv () = Inr ()" by simp
  from transaction_outcome_follows_func [OF s t,
      of "\<lambda>session. (Inl ''boom'' :: string + int)" "''boom''" 0]
    transaction_outcome_follows_func [OF s t,
      of "\<lambda>session. (Inr 42 :: string + int)" "''boom''" 42]
    a c
  show ?thesis by simp
qed

subsection \<open>The session is released\<close>

text \<open>
  C2. Once \<^verbatim>\<open>startSession\<close> has handed out a session, \<^verbatim>\<open>endSession\<close> is called exactly
  once, and it is the last call, whatever \<^verbatim>\<open>startTransaction\<close>, \<open>func\<close>, the commit
  and the abort answer: on success, when \<open>func\<close> fails, and when the commit or the
  abort fails.
\<close>

theorem session_ended_exactly_once:
  assumes s: "startSession drv (client this) = Inr ss"
  shows "count_list (snd (executeInTransaction drv this func log)) EndSession =
           Suc (count_list log EndSession) \<and>
         last (snd (executeInTransaction drv this func log)) = EndSession"
proof (cases "startTransaction drv ss")
  case (Inl e)
  show ?thesis by (simp add: exec_start_failed [where func = func, OF s Inl])
next
  case st: (Inr u)
  show ?thesis
  proof (cases "func ss")
    case (Inl e)
    show ?thesis by (simp add: exec_func_failed [where func = func, OF s st Inl])
  next
    case f: (Inr v)
    show ?thesis
    proof (cases "commitTransaction drv ss")
      case (Inl e)
      show ?thesis by (simp add: exec_commit_failed [where func = func, OF s st f Inl])
    next
      case (Inr u')
      show ?thesis by (simp add: exec_committed [where func = func, OF s st f Inr])
    qed
  qed
qed

text \<open>C2 where \<open>func\<close> and the abort both fail, where the commit fails, and on success.\<close>

theorem session_ended_exactly_once_witness:
  "count_list (snd (executeInTransaction (scripted_client (Inr ()) (Inr ()) (Inl ''abort failed''))
      local_wrapper (\<lambda>session. (Inl ''boom'' :: string + int)) [])) EndSession = 1 \<and>
   count_list (snd (executeInTransaction (scripted_client (Inr ()) (Inl ''commit failed'') (Inr ()))
      local_wrapper (\<lambda>session. (Inr 42 :: string + int)) [])) EndSession = 1 \<and>
   count_list (snd (executeInTransaction (scripted_client (Inr ()) (Inr ()) (Inr ()))
      local_wrapper (\<lambda>session. (Inr 42 :: string + int)) [])) EndSession = 1"
proof -
  have s: "startSession (scripted_client started committed aborted) (client local_wrapper) = Inr ()"
    for started committed aborted by simp
  from session_ended_exactly_once [OF s,
      of "Inr ()" "Inr ()" "Inl ''abort failed''" "\<lambda>session. (Inl ''boom'' :: string + int)" "[]"]
    session_ended_exactly_once [OF s,
      of "Inr ()" "Inl ''commit failed''" "Inr ()" "\<lambda>session. (Inr 42 :: string + int)" "[]"]
    session_ended_exactly_once [OF s,
      of "Inr ()" "Inr ()" "Inr ()" "\<lambda>session. (Inr 42 :: string + int)" "[]"]
  show ?thesis by simp
qed

subsection \<open>Which error is rethrown\<close>

text \<open>
  C3, as stated, fails on the path where the abort fails: \<open>func\<close> throws
  \<open>''original''\<close>, \<^verbatim>\<open>abortTransaction\<close> is rejected inside the \<^verbatim>\<open>catch\<close> block, and
  \<^verbatim>\<open>throw error\<close> is never reached. The caller gets the abort's error.
\<close>

theorem abort_failure_replaces_error:
  "executeInTransaction (scripted_client (Inr ()) (Inr ()) (Inl ''abort failed'')) local_wrapper
     (\<lambda>session. (Inl ''original'' :: string + int)) [] =
   (Inl ''abort failed'',
    [StartSession, StartTransaction, CallFunc, AbortTransaction, EndSession])"
  by (simp add: executeInTransaction_def io_defs scripted_client_def local_wrapper_def)

text \<open>
  C3, amended. When \<open>func\<close> throws and \<^verbatim>\<open>abortTransaction\<close> succeeds, the caller gets
  the very error \<open>func\<close> threw, neither wrapped nor replaced, after the sequence start,
  call, abort, end; no commit is attempted.
\<close>

theorem original_error_rethrown:
  assumes "startSession drv (client this) = Inr ss"
    and "startTransaction drv ss = Inr ()"
    and "func ss = Inl e"
    and "abortTransaction drv ss = Inr ()"
  shows "executeInTransaction drv this func log =
           (Inl e, log @ [StartSession, StartTransaction, CallFunc, AbortTransaction, EndSession])"
  using assms(4)
  by (simp add: exec_func_failed [where func = func, OF assms(1,2,3)])

text \<open>The amended C3 at a function that throws \<open>''original''\<close>.\<close>

theorem original_error_rethrown_witness:
  "executeInTransaction (scripted_client (Inr ()) (Inr ()) (Inr ())) local_wrapper
     (\<lambda>session. (Inl ''original'' :: string + int)) [] =
   (Inl ''original'',
    [StartSession, StartTransaction, CallFunc, AbortTransaction, EndSession])"
proof -
  let ?drv = "scripted_client (Inr ()) (Inr ()) (Inr ())"
  let ?func = "\<lambda>session :: unit. (Inl ''original'' :: string + int)"
  have s: "startSession ?drv (client local_wrapper) = Inr ()" by simp
  have t: "startTransaction ?drv () = Inr ()" by simp
  have f: "?func () = Inl ''original''" by simp
  have a: "abortTransaction ?drv () = Inr ()" by simp
  from original_error_rethrown [where func = ?func and log = "[]", OF s t f a]
  show ?thesis by simp
qed

section \<open>Inserts\<close>

lemma insertOne_returns:
  "collection_insertOne drv (getCollection this c) doc s = (Inr res, s') \<Longrightarrow>
   insertOne drv this c doc s = (Inr (doc(''_id'' \<mapsto> insertedId res)), s')"
  by (simp add: insertOne_def io_bind_def io_return_def spread_with_id_def)

lemma insertOne_throws:
  "collection_insertOne drv (getCollection this c) doc s = (Inl e, s') \<Longrightarrow>
   insertOne drv this c doc s = (Inl e, s')"
  by (simp add: insertOne_def io_bind_def)

lemma length_map_from: "length (map_from i f xs) = length xs"
  by (induction xs arbitrary: i) simp_all

lemma nth_map_from: "j < length xs \<Longrightarrow> map_from i f xs ! j = f (xs ! j) (i + j)"
proof (induction xs arbitrary: i j)
  case Nil
  then show ?case by simp
next
  case (Cons x xs)
  show ?case
  proof (cases j)
    case 0
    then show ?thesis by simp
  next
    case (Suc k)
    with Cons.prems have "k < length xs" by simp
    from Cons.IH [OF this, of "Suc i"] Suc show ?thesis by simp
  qed
qed

lemma insertMany_returns:
  "collection_insertMany drv (getCollection this c) docs s = (Inr res, s') \<Longrightarrow>
   insertMany drv this c docs s =
     (Inr (map_from 0 (\<lambda>doc index. doc(''_id'' \<mapsto> insertedIds res index)) docs), s')"
  by (simp add: insertMany_def io_bind_def io_return_def spread_with_id_def array_map_def)

lemma counting_insertOne:
  "collection_insertOne (counting_collection first_id) coll doc n =
     (Inr \<lparr>insertedId = first_id\<rparr>, Suc n)"
  by (simp add: counting_collection_def)

lemma counting_insertMany:
  "collection_insertMany (counting_collection first_id) coll docs n =
     (Inr \<lparr>insertedCount = length docs, insertedIds = (\<lambda>i. first_id + int i)\<rparr>,
      n + length docs)"
  by (simp add: counting_collection_def)

subsection \<open>The fields of an inserted document\<close>

text \<open>
  What the spread gives on every answer of the driver: when the driver's insert returns,
  \<^verbatim>\<open>insertOne\<close> returns a document that has every field of the input other than
  \<^verbatim>\<open>_id\<close> with its input value, and an \<^verbatim>\<open>_id\<close> field that holds the reported
  identifier, \<^verbatim>\<open>_id: result.insertedId\<close> coming after the spread.
\<close>

lemma insertOne_keeps_other_fields:
  assumes "collection_insertOne drv (getCollection this c) doc s = (Inr res, s')"
  shows "\<exists>r. insertOne drv this c doc s = (Inr r, s') \<and>
           (\<forall>k. k \<noteq> ''_id'' \<longrightarrow> r k = doc k) \<and>
           r ''_id'' = Some (insertedId res) \<and>
           (doc ''_id'' = None \<or> doc ''_id'' = Some (insertedId res) \<longrightarrow>
              (\<forall>k \<in> dom doc. r k = doc k))"
proof -
  let ?r = "doc(''_id'' \<mapsto> insertedId res)"
  have "insertOne drv this c doc s = (Inr ?r, s')"
    by (rule insertOne_returns [OF assms])
  moreover have "\<forall>k. k \<noteq> ''_id'' \<longrightarrow> ?r k = doc k"
    by simp
  moreover have "?r ''_id'' = Some (insertedId res)"
    by simp
  moreover have "doc ''_id'' = None \<or> doc ''_id'' = Some (insertedId res) \<longrightarrow>
      (\<forall>k \<in> dom doc. ?r k = doc k)"
    by auto
  ultimately show ?thesis by blast
qed



subsection \<open>The identifier of an inserted document\<close>

text \<open>
  C10. Whatever document \<^verbatim>\<open>insertOne\<close> returns, its \<^verbatim>\<open>_id\<close> is the identifier the
  driver's insert reported, for every input document, so also for one that came with an
  \<^verbatim>\<open>_id\<close> of its own.
\<close>

theorem insertOne_id_is_assigned:
  assumes "insertOne drv this c doc s = (Inr r, s')"
  shows "\<exists>res. collection_insertOne drv (getCollection this c) doc s = (Inr res, s') \<and>
           r ''_id'' = Some (insertedId res)"
proof (cases "collection_insertOne drv (getCollection this c) doc s")
  case (Pair outcome s'')
  show ?thesis
  proof (cases outcome)
    case (Inl e)
    with Pair assms insertOne_throws [of drv this c doc s e s''] show ?thesis by simp
  next
    case (Inr res)
    with Pair assms insertOne_returns [of drv this c doc s res s''] show ?thesis by auto
  qed
qed

text \<open>C10 at a document that came with \<^verbatim>\<open>_id\<close> 1, the driver assigning 7.\<close>

theorem insertOne_id_is_assigned_witness:
  "insertOne (counting_collection 7) local_wrapper ''users''
     [''_id'' \<mapsto> 1, ''name'' \<mapsto> 2] 0 =
     (Inr ([''_id'' \<mapsto> 1, ''name'' \<mapsto> 2](''_id'' \<mapsto> 7)), 1) \<and>
   ([''_id'' \<mapsto> 1, ''name'' \<mapsto> 2](''_id'' \<mapsto> 7)) ''_id'' = Some (7 :: int)"
proof -
  have h: "insertOne (counting_collection 7) local_wrapper ''users''
      [''_id'' \<mapsto> 1, ''name'' \<mapsto> 2] 0 =
      (Inr ([''_id'' \<mapsto> 1, ''name'' \<mapsto> 2](''_id'' \<mapsto> 7)), 1)"
    by (simp add: insertOne_returns [OF counting_insertOne])
  from insertOne_id_is_assigned [OF h] obtain res where
    "collection_insertOne (counting_collection 7) (getCollection local_wrapper ''users'')
       [''_id'' \<mapsto> 1, ''name'' \<mapsto> 2] 0 = (Inr res, 1)"
    "([''_id'' \<mapsto> 1, ''name'' \<mapsto> 2](''_id'' \<mapsto> 7)) ''_id'' = Some (insertedId res)"
    by blast
  then have "([''_id'' \<mapsto> 1, ''name'' \<mapsto> 2](''_id'' \<mapsto> 7)) ''_id'' = Some (7 :: int)"
    by (simp add: counting_insertOne)
  with h show ?thesis by blast
qed

subsection \<open>Bulk insert\<close>

text \<open>
  C5. When the driver's bulk insert returns, \<^verbatim>\<open>insertMany\<close> returns a sequence as long
  as the input, whose i-th document is the i-th input document with \<^verbatim>\<open>_id\<close> set to
  the i-th assigned identifier.
\<close>

theorem insertMany_positional:
  assumes "collection_insertMany drv (getCollection this c) docs s = (Inr res, s')"
  shows "\<exists>rs. insertMany drv this c docs s = (Inr rs, s') \<and>
           length rs = length docs \<and>
           (\<forall>i < length docs. rs ! i = (docs ! i)(''_id'' \<mapsto> insertedIds res i))"
proof -
  let ?rs = "map_from 0 (\<lambda>doc index. doc(''_id'' \<mapsto> insertedIds res index)) docs"
  have "insertMany drv this c docs s = (Inr ?rs, s')"
    by (rule insertMany_returns [OF assms])
  moreover have "length ?rs = length docs"
    by (rule length_map_from)
  moreover have "\<forall>i < length docs. ?rs ! i = (docs ! i)(''_id'' \<mapsto> insertedIds res i)"
    by (simp add: nth_map_from)
  ultimately show ?thesis by blast
qed

text \<open>C5 at two documents, the driver assigning 10 and 11.\<close>

theorem insertMany_positional_witness:
  "map_sum id (map (\<lambda>r. (r ''_id'', r ''a'')))
     (fst (insertMany (counting_collection 10) local_wrapper ''users''
        [[''a'' \<mapsto> 1], [''_id'' \<mapsto> 0, ''a'' \<mapsto> 3]] 0)) =
   Inr [(Some 10, Some 1), (Some 11, Some 3)]"
proof -
  let ?docs = "[[''a'' \<mapsto> 1], [''_id'' \<mapsto> 0, ''a'' \<mapsto> (3 :: int)]]"
  have h: "collection_insertMany (counting_collection 10) (getCollection local_wrapper ''users'')
      ?docs 0 = (Inr \<lparr>insertedCount = 2, insertedIds = (\<lambda>i. 10 + int i)\<rparr>, 2)"
    by (simp add: counting_insertMany)
  from insertMany_positional [OF h] obtain rs where
    run: "insertMany (counting_collection 10) local_wrapper ''users'' ?docs 0 = (Inr rs, 2)"
    and len: "length rs = 2"
    and nth: "\<forall>i < 2. rs ! i = (?docs ! i)(''_id'' \<mapsto> 10 + int i)"
    by auto
  from nth have r0: "rs ! 0 = [''a'' \<mapsto> 1, ''_id'' \<mapsto> 10]"
    by simp
  from nth have r1: "rs ! 1 = [''_id'' \<mapsto> 0, ''a'' \<mapsto> 3, ''_id'' \<mapsto> 11]"
    by (simp add: numeral_2_eq_2)
  have "map (\<lambda>r. (r ''_id'', r ''a'')) rs = [(Some 10, Some 1), (Some 11, Some 3)]"
  proof (rule nth_equalityI)
    show "length (map (\<lambda>r. (r ''_id'', r ''a'')) rs) = length [(Some 10, Some 1), (Some 11, Some (3::int))]"
      using len by simp
    fix i assume "i < length (map (\<lambda>r. (r ''_id'', r ''a'')) rs)"
    with len have "i = 0 \<or> i = 1" by auto
    then show "map (\<lambda>r. (r ''_id'', r ''a'')) rs ! i = [(Some 10, Some 1), (Some 11, Some 3)] ! i"
      using len r0 r1 by auto
  qed
  with run show ?thesis by simp
qed

section \<open>Absent filters\<close>

lemma io_bind_return: "io_bind m io_return = m"
  by (auto simp: io_bind_def io_return_def fun_eq_iff split: prod.splits sum.splits)

lemma filter_or_empty_absent: "filter_q query = None \<Longrightarrow> filter_or_empty query = Map.empty"
  by (simp add: filter_or_empty_def)

lemma filter_or_empty_present: "filter_or_empty (query\<lparr>filter_q := Some f\<rparr>) = f"
  by (simp add: filter_or_empty_def)

text \<open>
  C7. With an options record whose filter is absent, each of \<^verbatim>\<open>updateOne\<close>,
  \<^verbatim>\<open>updateMany\<close>, \<^verbatim>\<open>deleteOne\<close>, \<^verbatim>\<open>deleteMany\<close>, \<^verbatim>\<open>count\<close>, \<^verbatim>\<open>find\<close> and
  \<^verbatim>\<open>findOne\<close> is the driver's method of that collection called with the empty filter
  \<^verbatim>\<open>{}\<close> (and, for the two finds, with the options the record gives), on every driver,
  collection and database state; so it is the same computation as with the same record
  carrying the filter \<^verbatim>\<open>{}\<close>.
\<close>

theorem absent_filter_is_empty_filter:
  assumes "filter_q query = None"
  shows "updateOne drv this c query u = collection_updateOne drv (db this, c) Map.empty u \<and>
         updateMany drv this c query u = collection_updateMany drv (db this, c) Map.empty u \<and>
         deleteOne drv this c query = collection_deleteOne drv (db this, c) Map.empty \<and>
         deleteMany drv this c query = collection_deleteMany drv (db this, c) Map.empty \<and>
         count drv this c query = collection_countDocuments drv (db this, c) Map.empty \<and>
         find_q drv this c query =
           collection_find_toArray drv (db this, c) Map.empty
             \<lparr>skip_o = skip query, limit_o = limit query, sort_o = sort_q query,
              projection_o = projection query\<rparr> \<and>
         findOne drv this c query =
           collection_findOne drv (db this, c) Map.empty
             \<lparr>skip_o = skip query, limit_o = None, sort_o = sort_q query,
              projection_o = projection query\<rparr> \<and>
         updateOne drv this c query u =
           updateOne drv this c (query\<lparr>filter_q := Some Map.empty\<rparr>) u \<and>
         updateMany drv this c query u =
           updateMany drv this c (query\<lparr>filter_q := Some Map.empty\<rparr>) u \<and>
         deleteOne drv this c query =
           deleteOne drv this c (query\<lparr>filter_q := Some Map.empty\<rparr>) \<and>
         deleteMany drv this c query =
           deleteMany drv this c (query\<lparr>filter_q := Some Map.empty\<rparr>) \<and>
         count drv this c query =
           count drv this c (query\<lparr>filter_q := Some Map.empty\<rparr>) \<and>
         find_q drv this c query =
           find_q drv this c (query\<lparr>filter_q := Some Map.empty\<rparr>) \<and>
         findOne drv this c query =
           findOne drv this c (query\<lparr>filter_q := Some Map.empty\<rparr>)"
proof -
  note absent = filter_or_empty_absent [OF assms]
  have "updateOne drv this c query u = collection_updateOne drv (db this, c) Map.empty u"
    by (simp add: updateOne_def getCollection_def absent io_bind_return)
  moreover
  have "updateMany drv this c query u = collection_updateMany drv (db this, c) Map.empty u"
    by (simp add: updateMany_def getCollection_def absent io_bind_return)
  moreover
  have "deleteOne drv this c query = collection_deleteOne drv (db this, c) Map.empty"
    by (simp add: deleteOne_def getCollection_def absent io_bind_return)
  moreover
  have "deleteMany drv this c query = collection_deleteMany drv (db this, c) Map.empty"
    by (simp add: deleteMany_def getCollection_def absent io_bind_return)
  moreover
  have "count drv this c query = collection_countDocuments drv (db this, c) Map.empty"
    by (simp add: count_def getCollection_def absent)
  moreover
  have "find_q drv this c query =
      collection_find_toArray drv (db this, c) Map.empty
        \<lparr>skip_o = skip query, limit_o = limit query, sort_o = sort_q query,
         projection_o = projection query\<rparr>"
    by (simp add: find_q_def getCollection_def absent)
  moreover
  have "findOne drv this c query =
      collection_findOne drv (db this, c) Map.empty
        \<lparr>skip_o = skip query, limit_o = None, sort_o = sort_q query,
         projection_o = projection query\<rparr>"
    by (simp add: findOne_def getCollection_def absent)
  moreover
  have "updateOne drv this c query u =
      updateOne drv this c (query\<lparr>filter_q := Some Map.empty\<rparr>) u"
    by (simp add: updateOne_def absent filter_or_empty_present)
  moreover
  have "updateMany drv this c query u =
      updateMany drv this c (query\<lparr>filter_q := Some Map.empty\<rparr>) u"
    by (simp add: updateMany_def absent filter_or_empty_present)
  moreover
  have "deleteOne drv this c query =
      deleteOne drv this c (query\<lparr>filter_q := Some Map.empty\<rparr>)"
    by (simp add: deleteOne_def absent filter_or_empty_present)
  moreover
  have "deleteMany drv this c query =
      deleteMany drv this c (query\<lparr>filter_q := Some Map.empty\<rparr>)"
    by (simp add: deleteMany_def absent filter_or_empty_present)
  moreover
  have "count drv this c query =
      count drv this c (query\<lparr>filter_q := Some Map.empty\<rparr>)"
    by (simp add: count_def absent filter_or_empty_present)
  moreover
  have "find_q drv this c query =
      find_q drv this c (query\<lparr>filter_q := Some Map.empty\<rparr>)"
    by (simp add: find_q_def absent filter_or_empty_present)
  moreover
  have "findOne drv this c query =
      findOne drv this c (query\<lparr>filter_q := Some Map.empty\<rparr>)"
    by (simp add: findOne_def absent filter_or_empty_present)
  ultimately show ?thesis by blast
qed

text \<open>
  C7 on a collection of six documents: counting with no filter is the driver's count
  with \<^verbatim>\<open>{}\<close> and counts all six; deleting with no filter is the driver's
  \<^verbatim>\<open>deleteMany\<close> with \<^verbatim>\<open>{}\<close> and leaves none.
\<close>

theorem absent_filter_is_empty_filter_witness:
  "filter_q (empty_options :: (int, int) QueryOptions) = None \<and>
   count (counting_collection 0) local_wrapper ''users'' empty_options 6 = (Inr 6, 6) \<and>
   deleteMany (counting_collection 0) local_wrapper ''users'' empty_options 6 = (Inr (), 0)"
proof -
  have h: "filter_q (empty_options :: (int, int) QueryOptions) = None"
    by (simp add: empty_options_def)
  have "collection_countDocuments (counting_collection 0) ((), ''users'') Map.empty 6 =
      (Inr 6, 6)"
    by (simp add: counting_collection_def)
  moreover
  have "collection_deleteMany (counting_collection 0) ((), ''users'') Map.empty 6 =
      (Inr (), 0)"
    by (simp add: counting_collection_def)
  ultimately show ?thesis
    using h absent_filter_is_empty_filter [OF h, of "counting_collection 0" local_wrapper
        "''users''"]
    by simp
qed

section \<open>Construction\<close>

text \<open>
  C8. Constructing the wrapper adds no \<^verbatim>\<open>connect\<close> call to the calls made on the
  client, for every configuration and every driver: the constructor creates the client
  and takes its database handle. The call is made by \<^verbatim>\<open>connect\<close>, once.
\<close>

theorem constructor_does_not_connect:
  "count_list (snd (constructor drv cfg log)) ClientConnect = count_list log ClientConnect \<and>
   ClientConnect \<notin> set (snd (constructor drv cfg [])) \<and>
   count_list (snd (connect drv this log)) ClientConnect = Suc (count_list log ClientConnect)"
  by (simp add: constructor_def connect_def io_defs split: sum.splits)

section \<open>Query builders\<close>

lemma alloc_frame:
  assumes "deref h q = Some obj"
  shows "\<exists>r h'. alloc h new = (r, h') \<and> r \<noteq> q \<and> deref h r = None \<and>
           (\<forall>a old. deref h a = Some old \<longrightarrow> deref h' a = Some old) \<and>
           deref h' r = Some new"
  using assms by (auto simp: deref_def alloc_def nth_append split: if_splits)

lemma withFilter_frame:
  assumes "deref h q = Some obj"
  shows "\<exists>r h'. withFilter h q v = Some (r, h') \<and> r \<noteq> q \<and> deref h r = None \<and>
           (\<forall>a old. deref h a = Some old \<longrightarrow> deref h' a = Some old) \<and>
           deref h' r = Some (obj\<lparr>filter_q := Some v\<rparr>)"
  using alloc_frame [OF assms, of "obj\<lparr>filter_q := Some v\<rparr>"] assms
  by (simp add: withFilter_def)

lemma withSkip_frame:
  assumes "deref h q = Some obj"
  shows "\<exists>r h'. withSkip h q v = Some (r, h') \<and> r \<noteq> q \<and> deref h r = None \<and>
           (\<forall>a old. deref h a = Some old \<longrightarrow> deref h' a = Some old) \<and>
           deref h' r = Some (obj\<lparr>skip := Some v\<rparr>)"
  using alloc_frame [OF assms, of "obj\<lparr>skip := Some v\<rparr>"] assms
  by (simp add: withSkip_def)

lemma withLimit_frame:
  assumes "deref h q = Some obj"
  shows "\<exists>r h'. withLimit h q v = Some (r, h') \<and> r \<noteq> q \<and> deref h r = None \<and>
           (\<forall>a old. deref h a = Some old \<longrightarrow> deref h' a = Some old) \<and>
           deref h' r = Some (obj\<lparr>limit := Some v\<rparr>)"
  using alloc_frame [OF assms, of "obj\<lparr>limit := Some v\<rparr>"] assms
  by (simp add: withLimit_def)

lemma withSort_frame:
  assumes "deref h q = Some obj"
  shows "\<exists>r h'. withSort h q v = Some (r, h') \<and> r \<noteq> q \<and> deref h r = None \<and>
           (\<forall>a old. deref h a = Some old \<longrightarrow> deref h' a = Some old) \<and>
           deref h' r = Some (obj\<lparr>sort_q := Some v\<rparr>)"
  using alloc_frame [OF assms, of "obj\<lparr>sort_q := Some v\<rparr>"] assms
  by (simp add: withSort_def)

lemma withProjection_frame:
  assumes "deref h q = Some obj"
  shows "\<exists>r h'. withProjection h q v = Some (r, h') \<and> r \<noteq> q \<and> deref h r = None \<and>
           (\<forall>a old. deref h a = Some old \<longrightarrow> deref h' a = Some old) \<and>
           deref h' r = Some (obj\<lparr>projection := Some v\<rparr>)"
  using alloc_frame [OF assms, of "obj\<lparr>projection := Some v\<rparr>"] assms
  by (simp add: withProjection_def)

lemma deref_sample: "deref [sample_options] 0 = Some sample_options"
  by (simp add: deref_def)

subsection \<open>The builders do not mutate\<close>

text \<open>
  C6. Let \<open>q\<close> refer to the options record \<open>obj\<close>. Each of \<^verbatim>\<open>withFilter\<close>,
  \<^verbatim>\<open>withSkip\<close>, \<^verbatim>\<open>withLimit\<close>, \<^verbatim>\<open>withSort\<close> and \<^verbatim>\<open>withProjection\<close> returns a
  reference \<open>r\<close> that was not in use before; afterwards \<open>q\<close> still refers to \<open>obj\<close>,
  as does every other reference to what it referred to, and \<open>r\<close> refers to a record
  that has the new value in the targeted field and the value of \<open>obj\<close> in each of the
  other four.
\<close>

theorem with_builders_leave_input_unchanged:
  assumes "deref h q = Some obj"
  shows
    "(\<exists>r h' new. withFilter h q f = Some (r, h') \<and> deref h r = None \<and>
        deref h' q = Some obj \<and>
        (\<forall>a old. deref h a = Some old \<longrightarrow> deref h' a = Some old) \<and>
        deref h' r = Some new \<and> filter_q new = Some f \<and> skip new = skip obj \<and>
        limit new = limit obj \<and> sort_q new = sort_q obj \<and> projection new = projection obj) \<and>
     (\<exists>r h' new. withSkip h q k = Some (r, h') \<and> deref h r = None \<and>
        deref h' q = Some obj \<and>
        (\<forall>a old. deref h a = Some old \<longrightarrow> deref h' a = Some old) \<and>
        deref h' r = Some new \<and> filter_q new = filter_q obj \<and> skip new = Some k \<and>
        limit new = limit obj \<and> sort_q new = sort_q obj \<and> projection new = projection obj) \<and>
     (\<exists>r h' new. withLimit h q n = Some (r, h') \<and> deref h r = None \<and>
        deref h' q = Some obj \<and>
        (\<forall>a old. deref h a = Some old \<longrightarrow> deref h' a = Some old) \<and>
        deref h' r = Some new \<and> filter_q new = filter_q obj \<and> skip new = skip obj \<and>
        limit new = Some n \<and> sort_q new = sort_q obj \<and> projection new = projection obj) \<and>
     (\<exists>r h' new. withSort h q s = Some (r, h') \<and> deref h r = None \<and>
        deref h' q = Some obj \<and>
        (\<forall>a old. deref h a = Some old \<longrightarrow> deref h' a = Some old) \<and>
        deref h' r = Some new \<and> filter_q new = filter_q obj \<and> skip new = skip obj \<and>
        limit new = limit obj \<and> sort_q new = Some s \<and> projection new = projection obj) \<and>
     (\<exists>r h' new. withProjection h q p = Some (r, h') \<and> deref h r = None \<and>
        deref h' q = Some obj \<and>
        (\<forall>a old. deref h a = Some old \<longrightarrow> deref h' a = Some old) \<and>
        deref h' r = Some new \<and> filter_q new = filter_q obj \<and> skip new = skip obj \<and>
        limit new = limit obj \<and> sort_q new = sort_q obj \<and> projection new = Some p)"
proof (intro conjI)
  from withFilter_frame [OF assms, of f] obtain r h' where
    "withFilter h q f = Some (r, h')" "deref h r = None"
    "\<forall>a old. deref h a = Some old \<longrightarrow> deref h' a = Some old"
    "deref h' r = Some (obj\<lparr>filter_q := Some f\<rparr>)" by blast
  with assms show "\<exists>r h' new. withFilter h q f = Some (r, h') \<and> deref h r = None \<and>
        deref h' q = Some obj \<and>
        (\<forall>a old. deref h a = Some old \<longrightarrow> deref h' a = Some old) \<and>
        deref h' r = Some new \<and> filter_q new = Some f \<and> skip new = skip obj \<and>
        limit new = limit obj \<and> sort_q new = sort_q obj \<and> projection new = projection obj"
    by (intro exI [of _ r] exI [of _ h'] exI [of _ "obj\<lparr>filter_q := Some f\<rparr>"]) simp
next
  from withSkip_frame [OF assms, of k] obtain r h' where
    "withSkip h q k = Some (r, h')" "deref h r = None"
    "\<forall>a old. deref h a = Some old \<longrightarrow> deref h' a = Some old"
    "deref h' r = Some (obj\<lparr>skip := Some k\<rparr>)" by blast
  with assms show "\<exists>r h' new. withSkip h q k = Some (r, h') \<and> deref h r = None \<and>
        deref h' q = Some obj \<and>
        (\<forall>a old. deref h a = Some old \<longrightarrow> deref h' a = Some old) \<and>
        deref h' r = Some new \<and> filter_q new = filter_q obj \<and> skip new = Some k \<and>
        limit new = limit obj \<and> sort_q new = sort_q obj \<and> projection new = projection obj"
    by (intro exI [of _ r] exI [of _ h'] exI [of _ "obj\<lparr>skip := Some k\<rparr>"]) simp
next
  from withLimit_frame [OF assms, of n] obtain r h' where
    "withLimit h q n = Some (r, h')" "deref h r = None"
    "\<forall>a old. deref h a = Some old \<longrightarrow> deref h' a = Some old"
    "deref h' r = Some (obj\<lparr>limit := Some n\<rparr>)" by blast
  with assms show "\<exists>r h' new. withLimit h q n = Some (r, h') \<and> deref h r = None \<and>
        deref h' q = Some obj \<and>
        (\<forall>a old. deref h a = Some old \<longrightarrow> deref h' a = Some old) \<and>
        deref h' r = Some new \<and> filter_q new = filter_q obj \<and> skip new = skip obj \<and>
        limit new = Some n \<and> sort_q new = sort_q obj \<and> projection new = projection obj"
    by (intro exI [of _ r] exI [of _ h'] exI [of _ "obj\<lparr>limit := Some n\<rparr>"]) simp
next
  from withSort_frame [OF assms, of s] obtain r h' where
    "withSort h q s = Some (r, h')" "deref h r = None"
    "\<forall>a old. deref h a = Some old \<longrightarrow> deref h' a = Some old"
    "deref h' r = Some (obj\<lparr>sort_q := Some s\<rparr>)" by blast
  with assms show "\<exists>r h' new. withSort h q s = Some (r, h') \<and> deref h r = None \<and>
        deref h' q = Some obj \<and>
        (\<forall>a old. deref h a = Some old \<longrightarrow> deref h' a = Some old) \<and>
        deref h' r = Some new \<and> filter_q new = filter_q obj \<and> skip new = skip obj \<and>
        limit new = limit obj \<and> sort_q new = Some s \<and> projection new = projection obj"
    by (intro exI [of _ r] exI [of _ h'] exI [of _ "obj\<lparr>sort_q := Some s\<rparr>"]) simp
next
  from withProjection_frame [OF assms, of p] obtain r h' where
    "withProjection h q p = Some (r, h')" "deref h r = None"
    "\<forall>a old. deref h a = Some old \<longrightarrow> deref h' a = Some old"
    "deref h' r = Some (obj\<lparr>projection := Some p\<rparr>)" by blast
  with assms show "\<exists>r h' new. withProjection h q p = Some (r, h') \<and> deref h r = None \<and>
        deref h' q = Some obj \<and>
        (\<forall>a old. deref h a = Some old \<longrightarrow> deref h' a = Some old) \<and>
        deref h' r = Some new \<and> filter_q new = filter_q obj \<and> skip new = skip obj \<and>
        limit new = limit obj \<and> sort_q new = sort_q obj \<and> projection new = Some p"
    by (intro exI [of _ r] exI [of _ h'] exI [of _ "obj\<lparr>projection := Some p\<rparr>"]) simp
qed

text \<open>
  C6 at a record with \<^verbatim>\<open>skip\<close> 5 and \<^verbatim>\<open>limit\<close> 10: \<^verbatim>\<open>withSkip\<close> to 3 and
  \<^verbatim>\<open>withFilter\<close> to \<^verbatim>\<open>{active: 1}\<close>.
\<close>

theorem with_builders_leave_input_unchanged_witness:
  "deref [sample_options] 0 = Some sample_options \<and>
   (\<exists>r h' new. withSkip [sample_options] 0 3 = Some (r, h') \<and>
      deref h' 0 = Some sample_options \<and> deref h' r = Some new \<and>
      skip new = Some 3 \<and> limit new = Some 10 \<and> filter_q new = None) \<and>
   (\<exists>r h' new. withFilter [sample_options] 0 [''active'' \<mapsto> 1] = Some (r, h') \<and>
      deref h' 0 = Some sample_options \<and> deref h' r = Some new \<and>
      skip new = Some 5 \<and> limit new = Some 10 \<and> filter_q new = Some [''active'' \<mapsto> 1])"
proof -
  have fields: "skip sample_options = Some 5" "limit sample_options = Some 10"
    "filter_q sample_options = None"
    by (simp_all add: sample_options_def)
  from with_builders_leave_input_unchanged [OF deref_sample,
      of "[''active'' \<mapsto> 1]" 3 3 0 Map.empty]
  show ?thesis
    unfolding fields using deref_sample by blast
qed

subsection \<open>Which object a builder returns\<close>

text \<open>
  C9, as stated, fails for \<^verbatim>\<open>createQuery\<close>: called with the reference 0 it returns
  the reference 0, and the store is as before: no copy is made and no field replaced.
\<close>

theorem createQuery_returns_its_argument:
  "createQuery [sample_options] (Some 0) = (0, [sample_options])"
  by (simp add: createQuery_def)

text \<open>
  C9, amended. Each of the five \<^verbatim>\<open>with*\<close> functions returns a reference that was not
  in use before, so never its input, to a copy of the input record with the one field
  replaced (the values of the other fields are shared, not copied). \<^verbatim>\<open>createQuery\<close>
  returns the very object it was given and copies nothing; called without an argument
  it returns a new record with no field set.
\<close>

theorem with_builders_copy_createQuery_does_not:
  "createQuery h (Some q) = (q, h) \<and>
   (\<exists>r h'. createQuery h None = (r, h') \<and> deref h r = None \<and>
      deref h' r = Some empty_options) \<and>
   (deref h q = Some obj \<longrightarrow>
      (\<exists>r h'. withFilter h q f = Some (r, h') \<and> r \<noteq> q \<and> deref h r = None \<and>
         deref h' r = Some (obj\<lparr>filter_q := Some f\<rparr>)) \<and>
      (\<exists>r h'. withSkip h q k = Some (r, h') \<and> r \<noteq> q \<and> deref h r = None \<and>
         deref h' r = Some (obj\<lparr>skip := Some k\<rparr>)) \<and>
      (\<exists>r h'. withLimit h q n = Some (r, h') \<and> r \<noteq> q \<and> deref h r = None \<and>
         deref h' r = Some (obj\<lparr>limit := Some n\<rparr>)) \<and>
      (\<exists>r h'. withSort h q s = Some (r, h') \<and> r \<noteq> q \<and> deref h r = None \<and>
         deref h' r = Some (obj\<lparr>sort_q := Some s\<rparr>)) \<and>
      (\<exists>r h'. withProjection h q p = Some (r, h') \<and> r \<noteq> q \<and> deref h r = None \<and>
         deref h' r = Some (obj\<lparr>projection := Some p\<rparr>)))"
proof (intro conjI impI)
  show "createQuery h (Some q) = (q, h)"
    by (simp add: createQuery_def)
  show "\<exists>r h'. createQuery h None = (r, h') \<and> deref h r = None \<and>
      deref h' r = Some empty_options"
    by (simp add: createQuery_def alloc_def deref_def)
next
  assume d: "deref h q = Some obj"
  show "\<exists>r h'. withFilter h q f = Some (r, h') \<and> r \<noteq> q \<and> deref h r = None \<and>
         deref h' r = Some (obj\<lparr>filter_q := Some f\<rparr>)"
    using withFilter_frame [OF d, of f] by blast
  show "\<exists>r h'. withSkip h q k = Some (r, h') \<and> r \<noteq> q \<and> deref h r = None \<and>
         deref h' r = Some (obj\<lparr>skip := Some k\<rparr>)"
    using withSkip_frame [OF d, of k] by blast
  show "\<exists>r h'. withLimit h q n = Some (r, h') \<and> r \<noteq> q \<and> deref h r = None \<and>
         deref h' r = Some (obj\<lparr>limit := Some n\<rparr>)"
    using withLimit_frame [OF d, of n] by blast
  show "\<exists>r h'. withSort h q s = Some (r, h') \<and> r \<noteq> q \<and> deref h r = None \<and>
         deref h' r = Some (obj\<lparr>sort_q := Some s\<rparr>)"
    using withSort_frame [OF d, of s] by blast
  show "\<exists>r h'. withProjection h q p = Some (r, h') \<and> r \<noteq> q \<and> deref h r = None \<and>
         deref h' r = Some (obj\<lparr>projection := Some p\<rparr>)"
    using withProjection_frame [OF d, of p] by blast
qed

text \<open>The amended C9 at the same record: \<^verbatim>\<open>withLimit\<close> to 2.\<close>

theorem with_builders_copy_createQuery_does_not_witness:
  "deref [sample_options] 0 = Some sample_options \<and>
   createQuery [sample_options] (Some 0) = (0, [sample_options]) \<and>
   (\<exists>r h'. withLimit [sample_options] 0 2 = Some (r, h') \<and> r \<noteq> 0 \<and>
      deref h' r = Some (sample_options\<lparr>limit := Some 2\<rparr>))"
  using with_builders_copy_createQuery_does_not [of "[sample_options]" 0 sample_options
      Map.empty 0 2 0 Map.empty] deref_sample
  by blast

end
